theory Spec2Isabelle
  imports Main
begin

section \<open>Library functions the program calls\<close>

text \<open>
  The program is a single Go file, \<^verbatim>\<open>main.go\<close>. It calls a few functions of the Go
  standard library whose results decide its behaviour; they are modelled here for a
  Unix host, where \<^verbatim>\<open>os.PathSeparator\<close> is the slash and a path has no volume name.
  Go strings are byte strings, modelled as \<^typ>\<open>string\<close>.
\<close>

definition PathSeparator :: char where
  "PathSeparator = CHR ''/''"

text \<open>\<^verbatim>\<open>strings.Split(s, sep)\<close> for a one-byte separator: the pieces between the
  separators, a single piece (possibly empty) when there is no separator.\<close>

fun Split :: "string \<Rightarrow> char \<Rightarrow> string list" where
  "Split [] sep = [[]]"
| "Split (c # cs) sep =
     (if c = sep then [] # Split cs sep
      else (case Split cs sep of [] \<Rightarrow> [[c]] | p # ps \<Rightarrow> (c # p) # ps))"

text \<open>\<^verbatim>\<open>strings.Join(elems, sep)\<close>, used to print a cleaned path.\<close>

fun Join :: "string list \<Rightarrow> char \<Rightarrow> string" where
  "Join [] sep = []"
| "Join [p] sep = p"
| "Join (p # q # ps) sep = p @ sep # Join (q # ps) sep"

text \<open>
  \<^verbatim>\<open>filepath.Clean\<close>: the shortest path equivalent to the given one by purely lexical
  processing. Empty elements and \<^verbatim>\<open>.\<close> elements are dropped; a \<^verbatim>\<open>..\<close> element removes
  the real element before it, is dropped at the start of a rooted path, and is kept at
  the start of a relative one; an empty result is \<^verbatim>\<open>.\<close>. The elements kept so far are
  held in reverse order, the way the library's output buffer is cut back from its end.
\<close>

fun clean_elems :: "bool \<Rightarrow> string list \<Rightarrow> string list \<Rightarrow> string list" where
  "clean_elems rooted out [] = rev out"
| "clean_elems rooted out (e # es) =
     (if e = [] \<or> e = ''.'' then clean_elems rooted out es
      else if e = ''..'' then
        (case out of
           [] \<Rightarrow> if rooted then clean_elems rooted out es
                 else clean_elems rooted (e # out) es
         | kept # below \<Rightarrow>
             if kept = ''..'' then clean_elems rooted (e # out) es
             else clean_elems rooted below es)
      else clean_elems rooted (e # out) es)"

definition Clean :: "string \<Rightarrow> string" where
  "Clean path =
     (if path = [] then ''.''
      else
        (let rooted = (hd path = PathSeparator);
             body = Join (clean_elems rooted [] (Split path PathSeparator)) PathSeparator
         in if rooted then PathSeparator # body
            else if body = [] then ''.'' else body))"

text \<open>\<^verbatim>\<open>filepath.Dir\<close>: everything up to and including the last separator, cleaned.\<close>

definition Dir :: "string \<Rightarrow> string" where
  "Dir path = Clean (rev (dropWhile (\<lambda>c. c \<noteq> PathSeparator) (rev path)))"

text \<open>\<^verbatim>\<open>filepath.Base\<close>: the last element of the path, after removing trailing
  separators; \<^verbatim>\<open>.\<close> for the empty path and a single separator for a path of separators.\<close>

definition Base :: "string \<Rightarrow> string" where
  "Base path =
     (if path = [] then ''.''
      else
        (let stripped = rev (dropWhile (\<lambda>c. c = PathSeparator) (rev path));
             last_elem = rev (takeWhile (\<lambda>c. c \<noteq> PathSeparator) (rev stripped))
         in if last_elem = [] then [PathSeparator] else last_elem))"

text \<open>
  \<^verbatim>\<open>strconv.ParseBool\<close> returns a value and an error: the value is false whenever the
  error is set. The second component is \<^const>\<open>True\<close> when the library reports a
  syntax error.
\<close>

definition ParseBool :: "string \<Rightarrow> bool \<times> bool" where
  "ParseBool str =
     (if str \<in> set [''1'', ''t'', ''T'', ''TRUE'', ''true'', ''True''] then (True, False)
      else if str \<in> set [''0'', ''f'', ''F'', ''FALSE'', ''false'', ''False''] then (False, False)
      else (False, True))"

text \<open>\<^verbatim>\<open>strings.TrimSuffix\<close>.\<close>

definition TrimSuffix :: "string \<Rightarrow> string \<Rightarrow> string" where
  "TrimSuffix s suffix =
     (if length suffix \<le> length s \<and> drop (length s - length suffix) s = suffix
      then take (length s - length suffix) s else s)"

section \<open>The remote service and the host\<close>

text \<open>
  A remote object as the program reads it from a listing
  (\<^verbatim>\<open>files(name,id,mimeType,parents)\<close>) and as it writes it in a create or update call.
\<close>

record drive_file =
  Id :: string
  Name :: string
  MimeType :: string
  Parents :: "string list"

definition folderMimeType :: string where
  "folderMimeType = ''application/vnd.google-apps.folder''"

text \<open>
  The three calls the program issues. A listing asks for a name and, in the directory
  mirror, for the folder type as well. A create call carries media when it uploads a
  file and none when it makes a folder. An update call names the object, the new
  metadata, the parent to add and the media.
\<close>

datatype request =
  ListReq string "string option"
| CreateReq drive_file "string option"
| UpdateReq string drive_file string string

datatype event = Call request | Printed string

text \<open>
  The service is outside the program. It is a parameter of the model: the objects it
  holds, in the order in which a listing returns them; the ids it will give to the
  objects created next; the requests it answers with an error; and the record of what
  the run has sent to it so far, together with the one console notice a claim is about.
  A listing returns the objects whose name (and type, when asked) are equal to the
  queried ones, as a single page.
\<close>

record world =
  objects :: "drive_file list"
  new_ids :: "string list"
  refuses :: "request \<Rightarrow> bool"
  events :: "event list"

datatype fatal =
  MissingInput string
| InvalidPattern
| NoFileFound
| CredentialsNotBase64
| CredentialsNotJWT
| LstatFailed
| OpenFailed
| ListFoldersFailed
| CreateFolderFailed
| ListFilesFailed
| UploadFailed
| NoTargetName

text \<open>A call either ends the process (\<^verbatim>\<open>Fatalf\<close>), leaving the world as it was at
  that moment, or returns a value and the world after it.\<close>

type_synonym 'a outcome = "(fatal \<times> world) + ('a \<times> world)"

definition sent :: "request \<Rightarrow> world \<Rightarrow> world" where
  "sent r w = w\<lparr>events := events w @ [Call r]\<rparr>"

definition matches_query :: "string \<Rightarrow> string option \<Rightarrow> drive_file \<Rightarrow> bool" where
  "matches_query nm mt f =
     (Name f = nm \<and> (case mt of None \<Rightarrow> True | Some m \<Rightarrow> MimeType f = m))"

definition Files_List :: "string \<Rightarrow> string option \<Rightarrow> world \<Rightarrow> (drive_file list \<times> world) option" where
  "Files_List nm mt w =
     (if refuses w (ListReq nm mt) then None
      else Some (filter (matches_query nm mt) (objects w), sent (ListReq nm mt) w))"

definition Files_Create :: "drive_file \<Rightarrow> string option \<Rightarrow> world \<Rightarrow> (drive_file \<times> world) option" where
  "Files_Create f media w =
     (if refuses w (CreateReq f media) then None
      else (case new_ids w of
              [] \<Rightarrow> None
            | i # ids \<Rightarrow>
                (let d = f\<lparr>Id := i\<rparr>
                 in Some (d, (sent (CreateReq f media) w)
                               \<lparr>objects := objects w @ [d], new_ids := ids\<rparr>))))"

definition updated :: "string \<Rightarrow> drive_file \<Rightarrow> string \<Rightarrow> drive_file \<Rightarrow> drive_file" where
  "updated fileId f addParents old =
     (if Id old = fileId
      then old\<lparr>Name := (if Name f = [] then Name old else Name f),
               MimeType := (if MimeType f = [] then MimeType old else MimeType f),
               Parents := (if addParents \<in> set (Parents old) then Parents old
                           else Parents old @ [addParents])\<rparr>
      else old)"

definition Files_Update :: "string \<Rightarrow> drive_file \<Rightarrow> string \<Rightarrow> string \<Rightarrow> world \<Rightarrow> world option" where
  "Files_Update fileId f addParents media w =
     (if refuses w (UpdateReq fileId f addParents media) then None
      else if fileId \<notin> Id ` set (objects w) then None
      else Some ((sent (UpdateReq fileId f addParents media) w)
                   \<lparr>objects := map (updated fileId f addParents) (objects w)\<rparr>))"

text \<open>
  The host: what \<^verbatim>\<open>filepath.Glob\<close> returns for a pattern (nothing for a malformed
  one), what \<^verbatim>\<open>os.Lstat\<close> says about a path (whether it is a directory; nothing when
  the call fails; the call does not follow a symbolic link, so a link to a directory is
  not reported as a directory), what \<^verbatim>\<open>os.Open\<close> returns (nothing when the call
  fails; it follows links and also opens a directory), and whether the credentials
  decode and parse. An opened file either yields its content when it is read or, as an
  opened directory does, fails every read.
\<close>

datatype opened = Readable string | Unreadable

record host =
  Glob :: "string \<Rightarrow> string list option"
  Lstat :: "string \<Rightarrow> bool option"
  Open :: "string \<Rightarrow> opened option"
  DecodeString :: "string \<Rightarrow> string option"
  JWTConfigFromJSON :: "string \<Rightarrow> bool"

section \<open>The program\<close>

subsection \<open>\<^verbatim>\<open>uploadToDrive\<close>\<close>

definition skip_notice :: "string \<Rightarrow> string" where
  "skip_notice filename = filename @ '' is a directory. skipping upload.''"

definition printed :: "string \<Rightarrow> world \<Rightarrow> world" where
  "printed msg w = w\<lparr>events := events w @ [Printed msg]\<rparr>"

text \<open>
  The argument \<open>driveFile\<close> is the Go pointer: \<^const>\<open>None\<close> for \<^verbatim>\<open>nil\<close>. Every
  \<^verbatim>\<open>githubactions.Fatalf\<close> ends the process and is a left result. The opened file is
  read inside the create or update call, which returns the error of a failed read like
  any other error of the call.
\<close>

definition uploadToDrive ::
  "host \<Rightarrow> world \<Rightarrow> string \<Rightarrow> string \<Rightarrow> drive_file option \<Rightarrow> string \<Rightarrow> string \<Rightarrow> unit outcome" where
  "uploadToDrive h svc filename folderId driveFile name mimeType =
     (case Lstat h filename of
        None \<Rightarrow> Inl (LstatFailed, svc)
      | Some isDir \<Rightarrow>
          if isDir then Inr ((), printed (skip_notice filename) svc)
          else
            (case Open h filename of
               None \<Rightarrow> Inl (OpenFailed, svc)
             | Some Unreadable \<Rightarrow> Inl (UploadFailed, svc)
             | Some (Readable file) \<Rightarrow>
                 (case driveFile of
                    Some df \<Rightarrow>
                      (case Files_Update (Id df)
                              \<lparr>Id = [], Name = name, MimeType = mimeType, Parents = []\<rparr>
                              folderId file svc of
                         None \<Rightarrow> Inl (UploadFailed, svc)
                       | Some svc' \<Rightarrow> Inr ((), svc'))
                  | None \<Rightarrow>
                      (case Files_Create
                              \<lparr>Id = [], Name = name, MimeType = mimeType, Parents = [folderId]\<rparr>
                              (Some file) svc of
                         None \<Rightarrow> Inl (UploadFailed, svc)
                       | Some (d, svc') \<Rightarrow> Inr ((), svc')))))"

subsection \<open>\<^verbatim>\<open>createDriveDirectory\<close>\<close>

text \<open>
  The two nested loops over the listed folders and over each folder's parents. The pair
  is the loop state: the counter \<open>foundFolders\<close> and the variable \<open>nextFolderId\<close>.
  Neither loop has a \<^verbatim>\<open>break\<close>. The counter is a Go \<^verbatim>\<open>int\<close>; it is a natural number
  here, since only its being zero is read.
\<close>

fun scan_parents :: "string \<Rightarrow> string \<Rightarrow> string list \<Rightarrow> nat \<times> string \<Rightarrow> nat \<times> string" where
  "scan_parents folderId iId [] st = st"
| "scan_parents folderId iId (p # ps) (foundFolders, nextFolderId) =
     scan_parents folderId iId ps
       (if p = folderId then (Suc foundFolders, iId) else (foundFolders, nextFolderId))"

fun scan_folders :: "string \<Rightarrow> drive_file list \<Rightarrow> nat \<times> string \<Rightarrow> nat \<times> string" where
  "scan_folders folderId [] st = st"
| "scan_folders folderId (i # rest) st =
     scan_folders folderId rest (scan_parents folderId (Id i) (Parents i) st)"

definition createDriveDirectory :: "world \<Rightarrow> string \<Rightarrow> string \<Rightarrow> string outcome" where
  "createDriveDirectory svc folderId name =
     (case Files_List name (Some folderMimeType) svc of
        None \<Rightarrow> Inl (ListFoldersFailed, svc)
      | Some (r, svc1) \<Rightarrow>
          (case scan_folders folderId r (0, []) of
             (foundFolders, nextFolderId) \<Rightarrow>
               if foundFolders = 0 then
                 (case Files_Create
                         \<lparr>Id = [], Name = name, MimeType = folderMimeType, Parents = [folderId]\<rparr>
                         None svc1 of
                    None \<Rightarrow> Inl (CreateFolderFailed, svc1)
                  | Some (d, svc2) \<Rightarrow> Inr (Id d, svc2))
               else Inr (nextFolderId, svc1)))"

subsection \<open>\<^verbatim>\<open>uploadFile\<close>\<close>

text \<open>The inner loop over one object's parents, which stops at the first equal one.\<close>

fun parent_found :: "string \<Rightarrow> string list \<Rightarrow> bool" where
  "parent_found folderId [] = False"
| "parent_found folderId (p # ps) = (if p = folderId then True else parent_found folderId ps)"

text \<open>
  The outer loop over the listed objects; the last argument is the variable
  \<open>currentFile\<close>, \<^verbatim>\<open>nil\<close> at the start. It is assigned as soon as the name is equal,
  before the parents are looked at, and the loop stops only when a parent is equal.
\<close>

fun find_current :: "string \<Rightarrow> string \<Rightarrow> drive_file list \<Rightarrow> drive_file option \<Rightarrow> drive_file option" where
  "find_current name folderId [] currentFile = currentFile"
| "find_current name folderId (i # rest) currentFile =
     (if name = Name i then
        (if parent_found folderId (Parents i) then Some i
         else find_current name folderId rest (Some i))
      else find_current name folderId rest currentFile)"

definition uploadFile ::
  "host \<Rightarrow> world \<Rightarrow> string \<Rightarrow> string \<Rightarrow> string \<Rightarrow> string \<Rightarrow> bool \<Rightarrow> unit outcome" where
  "uploadFile h svc filename folderId name mimeType overwriteFlag =
     (if overwriteFlag then
        (case Files_List name None svc of
           None \<Rightarrow> Inl (ListFilesFailed, svc)
         | Some (r, svc1) \<Rightarrow>
             (case find_current name folderId r None of
                None \<Rightarrow> uploadToDrive h svc1 filename folderId None name mimeType
              | Some currentFile \<Rightarrow>
                  uploadToDrive h svc1 filename folderId (Some currentFile) name mimeType))
      else uploadToDrive h svc filename folderId None name mimeType)"

subsection \<open>\<^verbatim>\<open>main\<close>\<close>

text \<open>The action's inputs, as \<^verbatim>\<open>githubactions.GetInput\<close> returns them; the fields
  carry the names of the program's input constants.\<close>

record inputs =
  filenameInput :: string
  overwriteInput :: string
  nameInput :: string
  folderIdInput :: string
  credentialsInput :: string
  mimeTypeInput :: string
  useCompleteSourceName :: string
  mirrorDirectoryStructure :: string
  namePrefixInput :: string

text \<open>The local variables of \<^verbatim>\<open>main\<close> that the loop over the files reads.\<close>

record locals =
  overwriteFlag :: bool
  name :: string
  mimeType :: string
  useCompleteSourceFilenameAsNameFlag :: bool
  mirrorDirectoryStructureFlag :: bool
  filenamePrefix :: string
  useSourceFilename :: bool
  originalFolderId :: string

text \<open>A boolean input: false when empty, otherwise the value of \<^const>\<open>ParseBool\<close> with
  its error dropped.\<close>

definition flag_of :: "string \<Rightarrow> bool" where
  "flag_of v = (if v = [] then False else fst (ParseBool v))"

text \<open>The loop over the directory structure; \<open>folderId\<close> is overwritten at each step.\<close>

fun mirror_loop :: "world \<Rightarrow> string \<Rightarrow> string list \<Rightarrow> string outcome" where
  "mirror_loop svc folderId [] = Inr (folderId, svc)"
| "mirror_loop svc folderId (dir # dirs) =
     (case createDriveDirectory svc folderId dir of
        Inl e \<Rightarrow> Inl e
      | Inr (folderId', svc') \<Rightarrow> mirror_loop svc' folderId' dirs)"

text \<open>The three-way choice of the target name, before the check for emptiness.\<close>

definition targetName_of :: "locals \<Rightarrow> string \<Rightarrow> string" where
  "targetName_of v file =
     (if useCompleteSourceFilenameAsNameFlag v then file
      else if useSourceFilename v \<or> name v = [] then Base file
      else name v)"

text \<open>The prefix is put in front of a non-empty target name when it is itself non-empty.\<close>

definition prefixed :: "locals \<Rightarrow> string \<Rightarrow> string" where
  "prefixed v targetName =
     (if filenamePrefix v \<noteq> [] then filenamePrefix v @ targetName else targetName)"

text \<open>The first statements of an iteration: \<open>folderId\<close> is set to the saved
  \<open>originalFolderId\<close>, and the directory of the file is mirrored when the flag is set.\<close>

definition mirrored :: "locals \<Rightarrow> world \<Rightarrow> string \<Rightarrow> string outcome" where
  "mirrored v svc file =
     (if mirrorDirectoryStructureFlag v
      then mirror_loop svc (originalFolderId v) (Split (Dir file) PathSeparator)
      else Inr (originalFolderId v, svc))"

text \<open>
  One iteration of the loop over the files. The variable \<open>folderId\<close> lives outside
  the loop, so the iteration receives the value the previous one left and returns its
  own.
\<close>

definition file_step :: "host \<Rightarrow> locals \<Rightarrow> world \<Rightarrow> string \<Rightarrow> string \<Rightarrow> string outcome" where
  "file_step h v svc folderId file =
     (case mirrored v svc file of
        Inl e \<Rightarrow> Inl e
      | Inr (folderId', svc1) \<Rightarrow>
          if targetName_of v file = [] then Inl (NoTargetName, svc1)
          else
            (case uploadFile h svc1 file folderId' (prefixed v (targetName_of v file))
                    (mimeType v) (overwriteFlag v) of
               Inl e \<Rightarrow> Inl e
             | Inr (u, svc2) \<Rightarrow> Inr (folderId', svc2)))"

fun files_loop :: "host \<Rightarrow> locals \<Rightarrow> world \<Rightarrow> string \<Rightarrow> string list \<Rightarrow> string outcome" where
  "files_loop h v svc folderId [] = Inr (folderId, svc)"
| "files_loop h v svc folderId (file # rest) =
     (case file_step h v svc folderId file of
        Inl e \<Rightarrow> Inl e
      | Inr (folderId', svc') \<Rightarrow> files_loop h v svc' folderId' rest)"

text \<open>The values \<^verbatim>\<open>main\<close> derives from the inputs and from the list of matched
  files before it enters the loop.\<close>

definition locals_of :: "inputs \<Rightarrow> string list \<Rightarrow> locals" where
  "locals_of inp files =
     \<lparr>overwriteFlag = flag_of (overwriteInput inp),
      name = nameInput inp,
      mimeType = mimeTypeInput inp,
      useCompleteSourceFilenameAsNameFlag = flag_of (useCompleteSourceName inp),
      mirrorDirectoryStructureFlag = flag_of (mirrorDirectoryStructure inp),
      filenamePrefix = namePrefixInput inp,
      useSourceFilename = (length files > 1),
      originalFolderId = folderIdInput inp\<rparr>"

text \<open>
  \<^verbatim>\<open>main\<close>, from the reading of the inputs to the end of the loop. The result is the
  world at the end of the run, or the fatal condition that ended it and the world at
  that moment. The error of \<^verbatim>\<open>drive.New\<close> is only logged by the program and is raised
  for a missing HTTP client alone, which \<^verbatim>\<open>conf.Client\<close> never returns; it has no
  branch here. Console output other than the notice of a skipped directory is left out.
\<close>

definition main :: "host \<Rightarrow> inputs \<Rightarrow> world \<Rightarrow> unit outcome" where
  "main h inp svc =
     (if filenameInput inp = [] then Inl (MissingInput ''filename'', svc)
      else
        (case Glob h (filenameInput inp) of
           None \<Rightarrow> Inl (InvalidPattern, svc)
         | Some files \<Rightarrow>
             if length files = 0 then Inl (NoFileFound, svc)
             else if folderIdInput inp = [] then Inl (MissingInput ''folderId'', svc)
             else if credentialsInput inp = [] then Inl (MissingInput ''credentials'', svc)
             else
               (case DecodeString h (credentialsInput inp) of
                  None \<Rightarrow> Inl (CredentialsNotBase64, svc)
                | Some decodedCredentials \<Rightarrow>
                    if \<not> JWTConfigFromJSON h (TrimSuffix decodedCredentials [CHR 0x0A])
                    then Inl (CredentialsNotJWT, svc)
                    else
                      (case files_loop h (locals_of inp files) svc (folderIdInput inp) files of
                         Inl e \<Rightarrow> Inl e
                       | Inr (folderId, svc') \<Rightarrow> Inr ((), svc')))))"

text \<open>What a run has uploaded: the requests that carry media.\<close>

fun is_upload :: "event \<Rightarrow> bool" where
  "is_upload (Call (CreateReq f (Some media))) = True"
| "is_upload (Call (UpdateReq fileId f addParents media)) = True"
| "is_upload e = False"

definition uploads :: "world \<Rightarrow> event list" where
  "uploads w = filter is_upload (events w)"

text \<open>The value a call returned, if it returned, and the requests and notices on
  record when it returned or ended the process.\<close>

definition returned :: "'a outcome \<Rightarrow> 'a option" where
  "returned r = (case r of Inl e \<Rightarrow> None | Inr (x, w) \<Rightarrow> Some x)"

definition trace :: "'a outcome \<Rightarrow> event list" where
  "trace r = (case r of Inl (e, w) \<Rightarrow> events w | Inr (x, w) \<Rightarrow> events w)"

section \<open>What the loops compute\<close>

text \<open>
  The object the overwrite search ends with, said without the loop: the first listed
  object with the target name that has the target folder among its parents; failing
  that, the last listed object with the target name; nothing when no listed object has
  the name.
\<close>

definition overwrite_target :: "string \<Rightarrow> string \<Rightarrow> drive_file list \<Rightarrow> drive_file option" where
  "overwrite_target nm fid r =
     (case List.find (\<lambda>i. Name i = nm \<and> fid \<in> set (Parents i)) r of
        Some i \<Rightarrow> Some i
      | None \<Rightarrow>
          (case filter (\<lambda>i. Name i = nm) r of
             [] \<Rightarrow> None
           | i # others \<Rightarrow> Some (last (i # others))))"

text \<open>The remote folders of a given name that have a given folder among their parents,
  in listing order, and the metadata of the folder the mirror creates.\<close>

definition folder_matches :: "string \<Rightarrow> string \<Rightarrow> world \<Rightarrow> drive_file list" where
  "folder_matches nm fid svc =
     filter (\<lambda>f. Name f = nm \<and> MimeType f = folderMimeType \<and> fid \<in> set (Parents f)) (objects svc)"

definition new_folder :: "string \<Rightarrow> string \<Rightarrow> drive_file" where
  "new_folder nm fid = \<lparr>Id = [], Name = nm, MimeType = folderMimeType, Parents = [fid]\<rparr>"


section \<open>Example hosts and services\<close>

text \<open>A host on which every path is a readable regular file and the credentials are
  accepted; the pattern matches itself.\<close>

definition plain_host :: host where
  "plain_host =
     \<lparr>Glob = (\<lambda>p. Some [p]), Lstat = (\<lambda>p. Some False), Open = (\<lambda>p. Some (Readable ''data'')),
      DecodeString = (\<lambda>c. Some c), JWTConfigFromJSON = (\<lambda>c. True)\<rparr>"

text \<open>A service that holds one object named \<^verbatim>\<open>x.txt\<close>, in a folder other than \<^verbatim>\<open>F\<close>.\<close>

definition other_folder :: world where
  "other_folder =
     \<lparr>objects = [\<lparr>Id = ''x1'', Name = ''x.txt'', MimeType = ''text/plain'', Parents = [''other'']\<rparr>],
      new_ids = [''n1''], refuses = (\<lambda>r. False), events = []\<rparr>"

text \<open>A service that holds two folders named \<^verbatim>\<open>d\<close> under the folder \<^verbatim>\<open>R\<close>.\<close>

definition two_folders :: world where
  "two_folders =
     \<lparr>objects = [\<lparr>Id = ''f1'', Name = ''d'', MimeType = folderMimeType, Parents = [''R'']\<rparr>,
                 \<lparr>Id = ''f2'', Name = ''d'', MimeType = folderMimeType, Parents = [''R'']\<rparr>],
      new_ids = [''n1''], refuses = (\<lambda>r. False), events = []\<rparr>"

text \<open>A service that holds nothing yet.\<close>

definition empty_drive :: world where
  "empty_drive =
     \<lparr>objects = [], new_ids = [''n1'', ''n2'', ''n3'', ''n4''], refuses = (\<lambda>r. False), events = []\<rparr>"

text \<open>The values of a run that mirrors directories into the folder \<^verbatim>\<open>R\<close>, with no
  name, prefix or type configured and overwriting off.\<close>

definition mirror_locals :: locals where
  "mirror_locals =
     \<lparr>overwriteFlag = False, name = [], mimeType = [],
      useCompleteSourceFilenameAsNameFlag = False, mirrorDirectoryStructureFlag = True,
      filenamePrefix = [], useSourceFilename = False, originalFolderId = ''R''\<rparr>"

text \<open>A host on which the pattern matches two files of the directory \<^verbatim>\<open>d\<close>.\<close>

definition two_matches :: host where
  "two_matches = plain_host\<lparr>Glob := (\<lambda>p. Some [''d/a.txt'', ''d/b.txt''])\<rparr>"

text \<open>Inputs that configure the name \<^verbatim>\<open>Report\<close> and the folder \<^verbatim>\<open>R\<close> and leave
  every optional flag empty.\<close>

definition named_inputs :: inputs where
  "named_inputs =
     \<lparr>filenameInput = ''d/*.txt'', overwriteInput = [], nameInput = ''Report'',
      folderIdInput = ''R'', credentialsInput = ''secret'', mimeTypeInput = [],
      useCompleteSourceName = [], mirrorDirectoryStructure = [], namePrefixInput = []\<rparr>"

text \<open>The values of a run that uses the complete source filename as the name.\<close>

definition full_name_locals :: locals where
  "full_name_locals =
     \<lparr>overwriteFlag = False, name = [], mimeType = [],
      useCompleteSourceFilenameAsNameFlag = True, mirrorDirectoryStructureFlag = False,
      filenamePrefix = [], useSourceFilename = False, originalFolderId = ''R''\<rparr>"

text \<open>The world when a call returned or ended the process.\<close>

definition final :: "'a outcome \<Rightarrow> world" where
  "final r = (case r of Inl (e, w) \<Rightarrow> w | Inr (x, w) \<Rightarrow> w)"


text \<open>A service that holds one object named \<^verbatim>\<open>x.txt\<close>, in the folder \<^verbatim>\<open>R\<close>.\<close>

definition in_folder :: world where
  "in_folder =
     \<lparr>objects = [\<lparr>Id = ''x1'', Name = ''x.txt'', MimeType = ''text/plain'', Parents = [''R'']\<rparr>],
      new_ids = [''n1''], refuses = (\<lambda>r. False), events = []\<rparr>"

text \<open>Inputs that name the file \<^verbatim>\<open>x.txt\<close> and the folder \<^verbatim>\<open>R\<close> and leave every
  option empty.\<close>

definition plain_inputs :: inputs where
  "plain_inputs =
     \<lparr>filenameInput = ''x.txt'', overwriteInput = [], nameInput = [],
      folderIdInput = ''R'', credentialsInput = ''secret'', mimeTypeInput = [],
      useCompleteSourceName = [], mirrorDirectoryStructure = [], namePrefixInput = []\<rparr>"


section \<open>Auxiliary facts\<close>

lemma parent_found_set: "parent_found folderId ps = (folderId \<in> set ps)"
  by (induction ps) auto

lemma find_current_gen:
  "find_current nm fid r cur =
     (case List.find (\<lambda>i. Name i = nm \<and> fid \<in> set (Parents i)) r of
        Some i \<Rightarrow> Some i
      | None \<Rightarrow>
          (case filter (\<lambda>i. Name i = nm) r of
             [] \<Rightarrow> cur
           | i # others \<Rightarrow> Some (last (i # others))))"
proof (induction r arbitrary: cur)
  case Nil
  show ?case by simp
next
  case (Cons i r)
  show ?case
  proof (cases "Name i = nm")
    case False
    then have "find_current nm fid (i # r) cur = find_current nm fid r cur"
      by auto
    moreover have "filter (\<lambda>i. Name i = nm) (i # r) = filter (\<lambda>i. Name i = nm) r"
      using False by simp
    moreover have "List.find (\<lambda>i. Name i = nm \<and> fid \<in> set (Parents i)) (i # r)
        = List.find (\<lambda>i. Name i = nm \<and> fid \<in> set (Parents i)) r"
      using False by simp
    ultimately show ?thesis by (simp only: Cons.IH)
  next
    case True
    show ?thesis
    proof (cases "fid \<in> set (Parents i)")
      case True
      with \<open>Name i = nm\<close> show ?thesis by (simp add: parent_found_set)
    next
      case False
      have "find_current nm fid (i # r) cur = find_current nm fid r (Some i)"
        using False \<open>Name i = nm\<close> by (simp add: parent_found_set)
      also have "\<dots> =
         (case List.find (\<lambda>i. Name i = nm \<and> fid \<in> set (Parents i)) r of
            Some i \<Rightarrow> Some i
          | None \<Rightarrow>
              (case filter (\<lambda>i. Name i = nm) r of
                 [] \<Rightarrow> Some i
               | i # others \<Rightarrow> Some (last (i # others))))"
        by (rule Cons.IH)
      finally show ?thesis
        using False \<open>Name i = nm\<close> by (simp split: option.splits list.splits)
    qed
  qed
qed

lemma Files_List_ok:
  "\<not> refuses svc (ListReq nm mt) \<Longrightarrow>
     Files_List nm mt svc = Some (filter (matches_query nm mt) (objects svc), sent (ListReq nm mt) svc)"
  by (simp add: Files_List_def)

lemma scan_parents_eq:
  "scan_parents fid iid ps (n, nxt) =
     (n + length (filter (\<lambda>p. p = fid) ps), if fid \<in> set ps then iid else nxt)"
  by (induction ps arbitrary: n nxt) auto

lemma scan_folders_eq:
  "scan_folders fid r (n, nxt) =
     (n + sum_list (map (\<lambda>i. length (filter (\<lambda>p. p = fid) (Parents i))) r),
      case filter (\<lambda>i. fid \<in> set (Parents i)) r of [] \<Rightarrow> nxt | m # others \<Rightarrow> Id (last (m # others)))"
  by (induction r arbitrary: n nxt) (auto simp: scan_parents_eq split: list.splits)

lemma sum_zero_filter:
  "(sum_list (map (\<lambda>i. length (filter (\<lambda>p. p = fid) (Parents i))) r) = 0)
     = (filter (\<lambda>i. fid \<in> set (Parents i)) r = [])"
  by (induction r) (auto simp: filter_empty_conv)

lemma scan_folders_start:
  "scan_folders fid r (0, []) =
     (case filter (\<lambda>i. fid \<in> set (Parents i)) r of
        [] \<Rightarrow> (0, [])
      | m # others \<Rightarrow> (sum_list (map (\<lambda>i. length (filter (\<lambda>p. p = fid) (Parents i))) r),
                        Id (last (m # others))))"
  using sum_zero_filter [of fid r] by (simp add: scan_folders_eq split: list.splits)

lemma listed_matches:
  "filter (\<lambda>i. fid \<in> set (Parents i)) (filter (matches_query nm (Some folderMimeType)) (objects svc))
     = folder_matches nm fid svc"
  by (simp add: folder_matches_def matches_query_def conj_assoc)

lemma scan_listed:
  "scan_folders fid (filter (matches_query nm (Some folderMimeType)) (objects svc)) (0, []) =
     (case folder_matches nm fid svc of
        [] \<Rightarrow> (0, [])
      | m # others \<Rightarrow>
          (sum_list (map (\<lambda>i. length (filter (\<lambda>p. p = fid) (Parents i)))
             (filter (matches_query nm (Some folderMimeType)) (objects svc))),
           Id (last (m # others))))"
  by (simp only: scan_folders_start listed_matches)

lemma listed_count:
  "(sum_list (map (\<lambda>i. length (filter (\<lambda>p. p = fid) (Parents i)))
       (filter (matches_query nm (Some folderMimeType)) (objects svc))) = 0)
     = (folder_matches nm fid svc = [])"
  by (simp only: sum_zero_filter listed_matches)

lemma createDriveDirectory_found:
  assumes "\<not> refuses svc (ListReq nm (Some folderMimeType))" "folder_matches nm fid svc \<noteq> []"
  shows "createDriveDirectory svc fid nm =
     Inr (Id (last (folder_matches nm fid svc)), sent (ListReq nm (Some folderMimeType)) svc)"
proof -
  define cnt where "cnt = sum_list (map (\<lambda>i. length (filter (\<lambda>p. p = fid) (Parents i)))
              (filter (matches_query nm (Some folderMimeType)) (objects svc)))"
  obtain m others where mo: "folder_matches nm fid svc = m # others"
    using assms(2) by (cases "folder_matches nm fid svc") auto
  have nz: "cnt \<noteq> 0"
    unfolding cnt_def using assms(2) by (simp only: listed_count) simp
  have sc: "scan_folders fid (filter (matches_query nm (Some folderMimeType)) (objects svc)) (0, []) =
     (cnt, Id (last (folder_matches nm fid svc)))"
    unfolding cnt_def by (simp only: scan_listed mo list.case)
  show ?thesis
    using nz by (simp add: createDriveDirectory_def Files_List_ok [OF assms(1)] sc)
qed

lemma createDriveDirectory_missing:
  assumes "\<not> refuses svc (ListReq nm (Some folderMimeType))" "folder_matches nm fid svc = []"
  shows "createDriveDirectory svc fid nm =
     (case Files_Create (new_folder nm fid) None (sent (ListReq nm (Some folderMimeType)) svc) of
        None \<Rightarrow> Inl (CreateFolderFailed, sent (ListReq nm (Some folderMimeType)) svc)
      | Some (d, svc2) \<Rightarrow> Inr (Id d, svc2))"
proof -
  have "scan_folders fid (filter (matches_query nm (Some folderMimeType)) (objects svc)) (0, []) = (0, [])"
    by (simp only: scan_listed assms(2) list.case)
  then show ?thesis
    by (simp only: createDriveDirectory_def Files_List_ok [OF assms(1)] new_folder_def) simp
qed

lemma createDriveDirectory_created:
  assumes "\<not> refuses svc (ListReq nm (Some folderMimeType))" "folder_matches nm fid svc = []"
    "\<not> refuses svc (CreateReq (new_folder nm fid) None)" "new_ids svc = i # ids"
  shows "createDriveDirectory svc fid nm =
     Inr (i, svc\<lparr>objects := objects svc @ [(new_folder nm fid)\<lparr>Id := i\<rparr>], new_ids := ids,
                 events := events svc @ [Call (ListReq nm (Some folderMimeType)),
                                         Call (CreateReq (new_folder nm fid) None)]\<rparr>)"
  using assms(3,4)
  by (simp add: createDriveDirectory_missing [OF assms(1,2)] Files_Create_def sent_def Let_def)

lemma createDriveDirectory_Inr:
  assumes "createDriveDirectory svc fid nm = Inr (nid, svc')"
  shows "(nid \<in> Id ` set (folder_matches nm fid svc) \<and> objects svc' = objects svc
            \<and> new_ids svc' = new_ids svc)
       \<or> (\<exists>ids. new_ids svc = nid # ids \<and> new_ids svc' = ids
            \<and> objects svc' = objects svc @ [(new_folder nm fid)\<lparr>Id := nid\<rparr>])"
proof (cases "refuses svc (ListReq nm (Some folderMimeType))")
  case True
  with assms show ?thesis by (simp add: createDriveDirectory_def Files_List_def)
next
  case False
  show ?thesis
  proof (cases "folder_matches nm fid svc = []")
    case True
    from assms show ?thesis
      unfolding createDriveDirectory_missing [OF False True]
      by (auto simp: Files_Create_def sent_def Let_def split: if_splits list.splits option.splits)
  next
    case nonempty: False
    from assms show ?thesis
      unfolding createDriveDirectory_found [OF False nonempty]
      using nonempty by (auto simp: sent_def)
  qed
qed

section \<open>The overwrite search\<close>

text \<open>
  Claim C1, as amended. With overwriting enabled, \<^verbatim>\<open>uploadFile\<close> lists the objects
  that have the target name and hands \<^verbatim>\<open>uploadToDrive\<close> the first of them that has the
  target folder among its parents; when none has, it hands over the last listed object
  with the target name, which is then updated and gets the target folder added to its
  parents; it hands over \<^verbatim>\<open>nil\<close>, and a new object is created, only when no listed
  object has the target name.
\<close>

theorem overwrite_selection:
  "find_current nm fid r None = overwrite_target nm fid r \<and>
   uploadFile h svc filename fid nm mt True =
     (case Files_List nm None svc of
        None \<Rightarrow> Inl (ListFilesFailed, svc)
      | Some (r, svc1) \<Rightarrow> uploadToDrive h svc1 filename fid (overwrite_target nm fid r) nm mt)"
proof -
  have sel: "\<And>r. find_current nm fid r None = overwrite_target nm fid r"
    by (simp only: find_current_gen overwrite_target_def)
  show ?thesis
    by (simp add: sel uploadFile_def split: option.splits)
qed

text \<open>
  Claim C1, as stated, fails: the only object named \<^verbatim>\<open>x.txt\<close> lies in the folder
  \<^verbatim>\<open>other\<close>, the upload goes to the folder \<^verbatim>\<open>F\<close>, and the run sends an update of
  that object instead of a create.
\<close>

theorem overwrite_updates_object_of_other_folder:
  "find_current ''x.txt'' ''F'' (objects other_folder) None \<noteq> None \<and>
   trace (uploadFile plain_host other_folder ''x.txt'' ''F'' ''x.txt'' [] True) =
     [Call (ListReq ''x.txt'' None),
      Call (UpdateReq ''x1'' \<lparr>Id = [], Name = ''x.txt'', MimeType = [], Parents = []\<rparr> ''F'' ''data'')]"
  by (simp add: uploadFile_def other_folder_def plain_host_def Files_List_def matches_query_def
       uploadToDrive_def Files_Update_def sent_def trace_def)

section \<open>The directory mirror\<close>

text \<open>
  Claim C2, as amended. A mirror step whose listing is answered adopts the id of the
  last listed folder of the segment's name that has the current folder among its
  parents; when there is none and the service creates the folder, the step adopts the
  id the service gave to a new folder of that name under the current folder.
\<close>

theorem createDriveDirectory_step:
  assumes "\<not> refuses svc (ListReq nm (Some folderMimeType))"
  shows "(folder_matches nm fid svc \<noteq> [] \<longrightarrow>
            createDriveDirectory svc fid nm =
              Inr (Id (last (folder_matches nm fid svc)), sent (ListReq nm (Some folderMimeType)) svc))
       \<and> (folder_matches nm fid svc = [] \<longrightarrow>
            \<not> refuses svc (CreateReq (new_folder nm fid) None) \<longrightarrow> new_ids svc \<noteq> [] \<longrightarrow>
            createDriveDirectory svc fid nm =
              Inr (hd (new_ids svc),
                   svc\<lparr>objects := objects svc @ [(new_folder nm fid)\<lparr>Id := hd (new_ids svc)\<rparr>],
                       new_ids := tl (new_ids svc),
                       events := events svc @ [Call (ListReq nm (Some folderMimeType)),
                                               Call (CreateReq (new_folder nm fid) None)]\<rparr>))"
proof (intro conjI impI)
  assume "folder_matches nm fid svc \<noteq> []"
  then show "createDriveDirectory svc fid nm =
      Inr (Id (last (folder_matches nm fid svc)), sent (ListReq nm (Some folderMimeType)) svc)"
    by (rule createDriveDirectory_found [OF assms])
next
  assume none: "folder_matches nm fid svc = []"
    and ok: "\<not> refuses svc (CreateReq (new_folder nm fid) None)"
    and ids: "new_ids svc \<noteq> []"
  from ids have "new_ids svc = hd (new_ids svc) # tl (new_ids svc)" by simp
  then show "createDriveDirectory svc fid nm =
      Inr (hd (new_ids svc),
           svc\<lparr>objects := objects svc @ [(new_folder nm fid)\<lparr>Id := hd (new_ids svc)\<rparr>],
               new_ids := tl (new_ids svc),
               events := events svc @ [Call (ListReq nm (Some folderMimeType)),
                                       Call (CreateReq (new_folder nm fid) None)]\<rparr>)"
    by (rule createDriveDirectory_created [OF assms none ok])
qed

text \<open>The step on a service with two matching folders, and on one with none.\<close>

theorem createDriveDirectory_step_witness:
  "\<not> refuses two_folders (ListReq ''d'' (Some folderMimeType)) \<and>
   folder_matches ''d'' ''R'' two_folders \<noteq> [] \<and>
   returned (createDriveDirectory two_folders ''R'' ''d'') = Some ''f2'' \<and>
   \<not> refuses empty_drive (ListReq ''d'' (Some folderMimeType)) \<and>
   folder_matches ''d'' ''R'' empty_drive = [] \<and>
   \<not> refuses empty_drive (CreateReq (new_folder ''d'' ''R'') None) \<and>
   new_ids empty_drive \<noteq> [] \<and>
   returned (createDriveDirectory empty_drive ''R'' ''d'') = Some ''n1''"
  using createDriveDirectory_step [of two_folders "''d''" "''R''"]
        createDriveDirectory_step [of empty_drive "''d''" "''R''"]
  by (simp add: two_folders_def empty_drive_def folder_matches_def returned_def)

text \<open>
  Claim C2, as stated, fails: two folders named \<^verbatim>\<open>d\<close> lie under \<^verbatim>\<open>R\<close>, listed as
  \<^verbatim>\<open>f1\<close> then \<^verbatim>\<open>f2\<close>, and the step adopts \<^verbatim>\<open>f2\<close>, not the first match.
\<close>

theorem createDriveDirectory_adopts_second_of_two:
  "map Id (folder_matches ''d'' ''R'' two_folders) = [''f1'', ''f2''] \<and>
   returned (createDriveDirectory two_folders ''R'' ''d'') = Some ''f2''"
  by (simp add: two_folders_def folder_matches_def returned_def createDriveDirectory_def
        Files_List_def matches_query_def sent_def)

lemma Base_nonempty: "Base path \<noteq> []"
  by (simp add: Base_def Let_def)

lemma targetName_of_nonempty: "file \<noteq> [] \<Longrightarrow> targetName_of v file \<noteq> []"
  by (simp add: targetName_of_def Base_nonempty)

lemma createDriveDirectory_keeps:
  assumes "createDriveDirectory svc fid nm = Inr (nid, svc')"
    and "R \<notin> set (new_ids svc)" and "\<forall>f\<in>set (objects svc). Name f = c \<longrightarrow> Id f \<noteq> R"
  shows "R \<notin> set (new_ids svc') \<and> (\<forall>f\<in>set (objects svc'). Name f = c \<longrightarrow> Id f \<noteq> R)"
  using createDriveDirectory_Inr [OF assms(1)] assms(2,3)
  by (auto simp: new_folder_def)

lemma createDriveDirectory_not_root:
  assumes "createDriveDirectory svc fid nm = Inr (nid, svc')"
    and "R \<notin> set (new_ids svc)" and "\<forall>f\<in>set (objects svc). Name f = nm \<longrightarrow> Id f \<noteq> R"
  shows "nid \<noteq> R"
  using createDriveDirectory_Inr [OF assms(1)] assms(2,3)
  by (auto simp: folder_matches_def)

lemma Dir_abc: "Split (Dir ''a/b/c/file.txt'') PathSeparator = [''a'', ''b'', ''c'']"
  by (simp add: Dir_def Clean_def PathSeparator_def)

lemma Dir_bare: "PathSeparator \<notin> set file \<Longrightarrow> Split (Dir file) PathSeparator = [''.'']"
proof -
  assume "PathSeparator \<notin> set file"
  then have "dropWhile (\<lambda>c. c \<noteq> PathSeparator) (rev file) = []"
    by (auto simp: dropWhile_eq_Nil_conv)
  then show ?thesis by (simp add: Dir_def Clean_def PathSeparator_def)
qed

text \<open>
  Claim C3. With mirroring enabled, the iteration for the path \<^verbatim>\<open>a/b/c/file.txt\<close> runs
  the mirror step for \<^verbatim>\<open>a\<close> under the configured root, then for \<^verbatim>\<open>b\<close> under the id
  resolved for \<^verbatim>\<open>a\<close>, then for \<^verbatim>\<open>c\<close> under the id resolved for \<^verbatim>\<open>b\<close>, and uploads the
  file into the folder whose id was resolved for \<^verbatim>\<open>c\<close>. That id is not the root's,
  provided the service does not hand out the root's id to a new object and the root is
  not itself listed as an object named \<^verbatim>\<open>c\<close>.
\<close>

theorem mirror_a_b_c:
  assumes "mirrorDirectoryStructureFlag v"
  shows "file_step h v svc folderId ''a/b/c/file.txt'' =
     (case createDriveDirectory svc (originalFolderId v) ''a'' of
        Inl e \<Rightarrow> Inl e
      | Inr (a_id, svc1) \<Rightarrow>
          (case createDriveDirectory svc1 a_id ''b'' of
             Inl e \<Rightarrow> Inl e
           | Inr (b_id, svc2) \<Rightarrow>
               (case createDriveDirectory svc2 b_id ''c'' of
                  Inl e \<Rightarrow> Inl e
                | Inr (c_id, svc3) \<Rightarrow>
                    (case uploadFile h svc3 ''a/b/c/file.txt'' c_id
                            (prefixed v (targetName_of v ''a/b/c/file.txt''))
                            (mimeType v) (overwriteFlag v) of
                       Inl e \<Rightarrow> Inl e
                     | Inr (u, svc4) \<Rightarrow> Inr (c_id, svc4)))))
     \<and> (originalFolderId v \<notin> set (new_ids svc) \<longrightarrow>
          (\<forall>f\<in>set (objects svc). Name f = ''c'' \<longrightarrow> Id f \<noteq> originalFolderId v) \<longrightarrow>
          returned (mirrored v svc ''a/b/c/file.txt'') \<noteq> Some (originalFolderId v))"
proof (intro conjI impI)
  have ne: "targetName_of v ''a/b/c/file.txt'' \<noteq> []"
    by (rule targetName_of_nonempty) simp
  show "file_step h v svc folderId ''a/b/c/file.txt'' =
     (case createDriveDirectory svc (originalFolderId v) ''a'' of
        Inl e \<Rightarrow> Inl e
      | Inr (a_id, svc1) \<Rightarrow>
          (case createDriveDirectory svc1 a_id ''b'' of
             Inl e \<Rightarrow> Inl e
           | Inr (b_id, svc2) \<Rightarrow>
               (case createDriveDirectory svc2 b_id ''c'' of
                  Inl e \<Rightarrow> Inl e
                | Inr (c_id, svc3) \<Rightarrow>
                    (case uploadFile h svc3 ''a/b/c/file.txt'' c_id
                            (prefixed v (targetName_of v ''a/b/c/file.txt''))
                            (mimeType v) (overwriteFlag v) of
                       Inl e \<Rightarrow> Inl e
                     | Inr (u, svc4) \<Rightarrow> Inr (c_id, svc4)))))"
    using assms ne
    by (simp add: file_step_def mirrored_def Dir_abc split: sum.splits prod.splits)
next
  let ?R = "originalFolderId v"
  assume fresh: "?R \<notin> set (new_ids svc)"
    and named: "\<forall>f\<in>set (objects svc). Name f = ''c'' \<longrightarrow> Id f \<noteq> ?R"
  show "returned (mirrored v svc ''a/b/c/file.txt'') \<noteq> Some ?R"
  proof
    assume "returned (mirrored v svc ''a/b/c/file.txt'') = Some ?R"
    then obtain a_id svc1 b_id svc2 svc3 where
      a: "createDriveDirectory svc ?R ''a'' = Inr (a_id, svc1)" and
      b: "createDriveDirectory svc1 a_id ''b'' = Inr (b_id, svc2)" and
      c: "createDriveDirectory svc2 b_id ''c'' = Inr (?R, svc3)"
      using assms
      by (auto simp: returned_def mirrored_def Dir_abc split: sum.splits prod.splits)
    from createDriveDirectory_keeps [OF a fresh named]
    have k1: "?R \<notin> set (new_ids svc1)" "\<forall>f\<in>set (objects svc1). Name f = ''c'' \<longrightarrow> Id f \<noteq> ?R"
      by blast+
    from createDriveDirectory_keeps [OF b k1]
    have k2: "?R \<notin> set (new_ids svc2)" "\<forall>f\<in>set (objects svc2). Name f = ''c'' \<longrightarrow> Id f \<noteq> ?R"
      by blast+
    from createDriveDirectory_not_root [OF c k2] show False by simp
  qed
qed

text \<open>The iteration on a service that holds nothing: three folders are created in a
  chain, and the file is created in the third.\<close>

theorem mirror_a_b_c_witness:
  "mirrorDirectoryStructureFlag mirror_locals \<and>
   originalFolderId mirror_locals \<notin> set (new_ids empty_drive) \<and>
   returned (file_step plain_host mirror_locals empty_drive ''previous'' ''a/b/c/file.txt'') = Some ''n3'' \<and>
   trace (file_step plain_host mirror_locals empty_drive ''previous'' ''a/b/c/file.txt'') =
     [Call (ListReq ''a'' (Some folderMimeType)), Call (CreateReq (new_folder ''a'' ''R'') None),
      Call (ListReq ''b'' (Some folderMimeType)), Call (CreateReq (new_folder ''b'' ''n1'') None),
      Call (ListReq ''c'' (Some folderMimeType)), Call (CreateReq (new_folder ''c'' ''n2'') None),
      Call (CreateReq \<lparr>Id = [], Name = ''file.txt'', MimeType = [], Parents = [''n3'']\<rparr> (Some ''data''))] \<and>
   returned (mirrored mirror_locals empty_drive ''a/b/c/file.txt'') \<noteq> Some ''R''"
  using mirror_a_b_c [of mirror_locals plain_host empty_drive "''previous''"]
  by (simp add: mirror_locals_def empty_drive_def plain_host_def createDriveDirectory_def
        Files_List_def Files_Create_def matches_query_def sent_def uploadFile_def uploadToDrive_def
        prefixed_def targetName_of_def Base_def PathSeparator_def returned_def trace_def new_folder_def
        folderMimeType_def Let_def)

text \<open>
  Claim C10. With mirroring enabled, a matched path without a separator has the
  directory \<^verbatim>\<open>.\<close>, so the iteration runs exactly one mirror step, for the segment
  \<^verbatim>\<open>.\<close> under the configured root, and uploads the file into the folder that step
  resolved. That folder is not the root, provided the service does not hand out the
  root's id to a new object and the root is not itself listed as an object named \<^verbatim>\<open>.\<close>.
\<close>

theorem mirror_of_bare_name:
  assumes "mirrorDirectoryStructureFlag v" and "PathSeparator \<notin> set file"
  shows "Split (Dir file) PathSeparator = [''.'']
     \<and> mirrored v svc file = createDriveDirectory svc (originalFolderId v) ''.''
     \<and> file_step h v svc folderId file =
         (case createDriveDirectory svc (originalFolderId v) ''.'' of
            Inl e \<Rightarrow> Inl e
          | Inr (dot_id, svc1) \<Rightarrow>
              if targetName_of v file = [] then Inl (NoTargetName, svc1)
              else
                (case uploadFile h svc1 file dot_id (prefixed v (targetName_of v file))
                        (mimeType v) (overwriteFlag v) of
                   Inl e \<Rightarrow> Inl e
                 | Inr (u, svc2) \<Rightarrow> Inr (dot_id, svc2)))
     \<and> (originalFolderId v \<notin> set (new_ids svc) \<longrightarrow>
          (\<forall>f\<in>set (objects svc). Name f = ''.'' \<longrightarrow> Id f \<noteq> originalFolderId v) \<longrightarrow>
          returned (mirrored v svc file) \<noteq> Some (originalFolderId v))"
proof -
  have m: "mirrored v svc file = createDriveDirectory svc (originalFolderId v) ''.''"
    using assms by (simp add: mirrored_def Dir_bare split: sum.splits prod.splits)
  have "returned (createDriveDirectory svc (originalFolderId v) ''.'') \<noteq> Some (originalFolderId v)"
    if "originalFolderId v \<notin> set (new_ids svc)"
      and "\<forall>f\<in>set (objects svc). Name f = ''.'' \<longrightarrow> Id f \<noteq> originalFolderId v"
    using createDriveDirectory_not_root [OF _ that] 
    by (auto simp: returned_def split: sum.splits prod.splits)
  then show ?thesis
    using assms(2) by (simp add: m Dir_bare file_step_def)
qed

text \<open>The iteration for \<^verbatim>\<open>file.txt\<close> on a service that holds nothing: a folder named
  \<^verbatim>\<open>.\<close> is created under the root and the file is created in it.\<close>

theorem mirror_of_bare_name_witness:
  "mirrorDirectoryStructureFlag mirror_locals \<and> PathSeparator \<notin> set ''file.txt'' \<and>
   originalFolderId mirror_locals \<notin> set (new_ids empty_drive) \<and>
   trace (file_step plain_host mirror_locals empty_drive ''previous'' ''file.txt'') =
     [Call (ListReq ''.'' (Some folderMimeType)), Call (CreateReq (new_folder ''.'' ''R'') None),
      Call (CreateReq \<lparr>Id = [], Name = ''file.txt'', MimeType = [], Parents = [''n1'']\<rparr> (Some ''data''))] \<and>
   returned (mirrored mirror_locals empty_drive ''file.txt'') \<noteq> Some ''R''"
  using mirror_of_bare_name [of mirror_locals "''file.txt''" empty_drive plain_host "''previous''"]
  by (simp add: mirror_locals_def empty_drive_def plain_host_def createDriveDirectory_def
        Files_List_def Files_Create_def matches_query_def sent_def uploadFile_def uploadToDrive_def
        prefixed_def targetName_of_def Base_def PathSeparator_def returned_def trace_def new_folder_def
        folderMimeType_def Let_def)

section \<open>The loop over the files\<close>


lemma file_step_named:
  assumes "targetName_of v file = tn" and "tn \<noteq> []"
  shows "file_step h v svc folderId file =
     (case mirrored v svc file of
        Inl e \<Rightarrow> Inl e
      | Inr (dir_id, svc1) \<Rightarrow>
          (case uploadFile h svc1 file dir_id (prefixed v tn) (mimeType v) (overwriteFlag v) of
             Inl e \<Rightarrow> Inl e
           | Inr (u, svc2) \<Rightarrow> Inr (dir_id, svc2)))"
  using assms by (auto simp: file_step_def split: sum.splits prod.splits)



section \<open>The target name\<close>

text \<open>
  Claim C5, as amended. When the pattern matched more than one file and
  \<^verbatim>\<open>useCompleteSourceFilenameAsName\<close> is not set, the name given to the upload of each
  file is the file's base name with the configured prefix in front of it, whatever the
  configured name is.
\<close>

theorem base_name_for_several:
  assumes "length files > 1" and "\<not> flag_of (useCompleteSourceName inp)"
  shows "prefixed (locals_of inp files) (targetName_of (locals_of inp files) file)
           = namePrefixInput inp @ Base file
     \<and> file_step h (locals_of inp files) svc folderId file =
         (case mirrored (locals_of inp files) svc file of
            Inl e \<Rightarrow> Inl e
          | Inr (dir_id, svc1) \<Rightarrow>
              (case uploadFile h svc1 file dir_id (namePrefixInput inp @ Base file)
                      (mimeTypeInput inp) (flag_of (overwriteInput inp)) of
                 Inl e \<Rightarrow> Inl e
               | Inr (u, svc2) \<Rightarrow> Inr (dir_id, svc2)))"
proof -
  have t: "targetName_of (locals_of inp files) file = Base file"
    using assms by (simp add: targetName_of_def locals_of_def)
  have p: "prefixed (locals_of inp files) (Base file) = namePrefixInput inp @ Base file"
    by (simp add: prefixed_def locals_of_def)
  have sel: "mimeType (locals_of inp files) = mimeTypeInput inp"
    "overwriteFlag (locals_of inp files) = flag_of (overwriteInput inp)"
    by (simp_all add: locals_of_def)
  show ?thesis
    unfolding file_step_named [OF t Base_nonempty] t p sel by simp
qed

text \<open>Two matched files and the configured name \<^verbatim>\<open>Report\<close>: the name is the base name.\<close>

theorem base_name_for_several_witness:
  "length [''d/a.txt'', ''d/b.txt''] > 1 \<and> \<not> flag_of (useCompleteSourceName named_inputs) \<and>
   prefixed (locals_of named_inputs [''d/a.txt'', ''d/b.txt''])
     (targetName_of (locals_of named_inputs [''d/a.txt'', ''d/b.txt'']) ''d/a.txt'') = ''a.txt''"
  using base_name_for_several [of "[''d/a.txt'', ''d/b.txt'']" named_inputs "''d/a.txt''"]
  by (simp add: named_inputs_def flag_of_def Base_def PathSeparator_def)

text \<open>
  Claim C5, as stated, fails: the pattern matched two files,
  \<^verbatim>\<open>useCompleteSourceFilenameAsName\<close> is \<^verbatim>\<open>true\<close>, and the two objects are created
  under the names \<^verbatim>\<open>d/a.txt\<close> and \<^verbatim>\<open>d/b.txt\<close>, not under the base names.
\<close>

theorem full_name_wins_over_base_name:
  "Base ''d/a.txt'' = ''a.txt'' \<and>
   trace (main two_matches (named_inputs\<lparr>useCompleteSourceName := ''true''\<rparr>) empty_drive) =
     [Call (CreateReq \<lparr>Id = [], Name = ''d/a.txt'', MimeType = [], Parents = [''R'']\<rparr> (Some ''data'')),
      Call (CreateReq \<lparr>Id = [], Name = ''d/b.txt'', MimeType = [], Parents = [''R'']\<rparr> (Some ''data''))]"
  by (simp add: main_def two_matches_def plain_host_def named_inputs_def empty_drive_def locals_of_def
        flag_of_def ParseBool_def TrimSuffix_def file_step_def mirrored_def targetName_of_def
        prefixed_def uploadFile_def uploadToDrive_def Files_Create_def sent_def trace_def Let_def
        Base_def PathSeparator_def)

text \<open>
  Claim C6. With \<^verbatim>\<open>useCompleteSourceFilenameAsName\<close> set, the name given to the upload
  of a matched path is the path itself, directories included, with the configured
  prefix in front of it (nothing when the prefix is empty). A matched path is never
  empty, since the pattern is not.
\<close>

theorem full_source_name:
  assumes "useCompleteSourceFilenameAsNameFlag v" and "file \<noteq> []"
  shows "prefixed v (targetName_of v file) = filenamePrefix v @ file
     \<and> file_step h v svc folderId file =
         (case mirrored v svc file of
            Inl e \<Rightarrow> Inl e
          | Inr (dir_id, svc1) \<Rightarrow>
              (case uploadFile h svc1 file dir_id (filenamePrefix v @ file)
                      (mimeType v) (overwriteFlag v) of
                 Inl e \<Rightarrow> Inl e
               | Inr (u, svc2) \<Rightarrow> Inr (dir_id, svc2)))"
proof -
  have t: "targetName_of v file = file"
    using assms(1) by (simp add: targetName_of_def)
  have p: "prefixed v file = filenamePrefix v @ file"
    by (simp add: prefixed_def)
  show ?thesis
    unfolding file_step_named [OF t assms(2)] t p by simp
qed

text \<open>The path \<^verbatim>\<open>d/a.txt\<close> with the prefix \<^verbatim>\<open>v2-\<close>.\<close>

theorem full_source_name_witness:
  "useCompleteSourceFilenameAsNameFlag (full_name_locals\<lparr>filenamePrefix := ''v2-''\<rparr>) \<and>
   ''d/a.txt'' \<noteq> [] \<and>
   prefixed (full_name_locals\<lparr>filenamePrefix := ''v2-''\<rparr>)
     (targetName_of (full_name_locals\<lparr>filenamePrefix := ''v2-''\<rparr>) ''d/a.txt'') = ''v2-d/a.txt'' \<and>
   trace (file_step plain_host (full_name_locals\<lparr>filenamePrefix := ''v2-''\<rparr>) empty_drive ''R'' ''d/a.txt'') =
     [Call (CreateReq \<lparr>Id = [], Name = ''v2-d/a.txt'', MimeType = [], Parents = [''R'']\<rparr> (Some ''data''))]"
  using full_source_name [of "full_name_locals\<lparr>filenamePrefix := ''v2-''\<rparr>" "''d/a.txt''"
            plain_host empty_drive "''R''"]
  by (simp add: full_name_locals_def plain_host_def empty_drive_def mirrored_def uploadFile_def
        uploadToDrive_def Files_Create_def sent_def trace_def Let_def)

section \<open>Directories and empty names\<close>

lemma uploads_sent_list [simp]: "uploads (sent (ListReq nm mt) w) = uploads w"
  by (simp add: uploads_def sent_def)

lemma uploads_printed [simp]: "uploads (printed msg w) = uploads w"
  by (simp add: uploads_def printed_def)

lemma createDriveDirectory_uploads:
  "uploads (final (createDriveDirectory svc fid nm)) = uploads svc"
  by (auto simp: createDriveDirectory_def Files_List_def Files_Create_def final_def Let_def
        uploads_def sent_def split: option.splits prod.splits list.splits)

lemma mirror_loop_uploads: "uploads (final (mirror_loop svc fid dirs)) = uploads svc"
proof (induction dirs arbitrary: svc fid)
  case Nil
  show ?case by (simp add: final_def)
next
  case (Cons dir dirs)
  show ?case
  proof (cases "createDriveDirectory svc fid dir")
    case (Inl e)
    with createDriveDirectory_uploads [of svc fid dir] show ?thesis by simp
  next
    case (Inr p)
    obtain next_id svc1 where p: "p = (next_id, svc1)" by (cases p)
    have "uploads svc1 = uploads svc"
      using createDriveDirectory_uploads [of svc fid dir] by (simp add: Inr p final_def)
    then show ?thesis by (simp add: Inr p Cons.IH)
  qed
qed

lemma mirrored_uploads: "uploads (final (mirrored v svc file)) = uploads svc"
  by (simp add: mirrored_def mirror_loop_uploads) (simp add: final_def)




text \<open>
  Claim C8. When the name resolved for a file, prefix included, is empty, the loop ends
  the run at that file, with the rest of the files unprocessed: the result is the fatal
  condition of the missing target name, or that of a mirror step that failed before it.
  No upload has been sent for the file when the run ends.
\<close>

theorem empty_name_aborts:
  assumes "prefixed v (targetName_of v file) = []"
  shows "files_loop h v svc folderId (file # rest) =
           (case mirrored v svc file of
              Inl e \<Rightarrow> Inl e
            | Inr (dir_id, svc1) \<Rightarrow> Inl (NoTargetName, svc1))
     \<and> (\<exists>e svc'. files_loop h v svc folderId (file # rest) = Inl (e, svc')
                  \<and> uploads svc' = uploads svc)"
proof -
  have empty: "targetName_of v file = []"
    using assms by (simp add: prefixed_def split: if_splits)
  have eq: "files_loop h v svc folderId (file # rest) =
           (case mirrored v svc file of
              Inl e \<Rightarrow> Inl e
            | Inr (dir_id, svc1) \<Rightarrow> Inl (NoTargetName, svc1))"
    by (auto simp: file_step_def empty split: sum.splits prod.splits)
  have "\<exists>e svc'. files_loop h v svc folderId (file # rest) = Inl (e, svc')
                  \<and> uploads svc' = uploads svc"
    unfolding eq using mirrored_uploads [of v svc "file"]
    by (cases "mirrored v svc file") (auto simp: final_def)
  with eq show ?thesis by blast
qed

text \<open>An empty path under \<^verbatim>\<open>useCompleteSourceFilenameAsName\<close>, followed by \<^verbatim>\<open>b.txt\<close>.\<close>

theorem empty_name_aborts_witness:
  "prefixed full_name_locals (targetName_of full_name_locals []) = [] \<and>
   files_loop plain_host full_name_locals empty_drive ''R'' [[], ''b.txt'']
     = Inl (NoTargetName, empty_drive)"
  using empty_name_aborts [of full_name_locals "[]" plain_host empty_drive "''R''" "[''b.txt'']"]
  by (simp add: full_name_locals_def prefixed_def targetName_of_def mirrored_def)

section \<open>The boolean inputs\<close>

lemma flag_of_invalid: "snd (ParseBool bad) \<Longrightarrow> flag_of bad = flag_of ''false''"
  by (simp add: flag_of_def ParseBool_def split: if_splits)

text \<open>
  Claim C9. An input value that \<^verbatim>\<open>strconv.ParseBool\<close> rejects gives the flag the value
  false, and the run with that value as \<^verbatim>\<open>overwrite\<close>,
  \<^verbatim>\<open>useCompleteSourceFilenameAsName\<close> or \<^verbatim>\<open>mirrorDirectoryStructure\<close> is the run with the
  value \<^verbatim>\<open>false\<close>: the parse error ends nothing.
\<close>

theorem invalid_boolean_is_false:
  assumes "snd (ParseBool bad)"
  shows "flag_of bad = False
     \<and> main h (inp\<lparr>overwriteInput := bad\<rparr>) svc = main h (inp\<lparr>overwriteInput := ''false''\<rparr>) svc
     \<and> main h (inp\<lparr>useCompleteSourceName := bad\<rparr>) svc
         = main h (inp\<lparr>useCompleteSourceName := ''false''\<rparr>) svc
     \<and> main h (inp\<lparr>mirrorDirectoryStructure := bad\<rparr>) svc
         = main h (inp\<lparr>mirrorDirectoryStructure := ''false''\<rparr>) svc"
proof -
  note f = flag_of_invalid [OF assms]
  have l: "locals_of (inp\<lparr>overwriteInput := bad\<rparr>) files
             = locals_of (inp\<lparr>overwriteInput := ''false''\<rparr>) files"
    "locals_of (inp\<lparr>useCompleteSourceName := bad\<rparr>) files
             = locals_of (inp\<lparr>useCompleteSourceName := ''false''\<rparr>) files"
    "locals_of (inp\<lparr>mirrorDirectoryStructure := bad\<rparr>) files
             = locals_of (inp\<lparr>mirrorDirectoryStructure := ''false''\<rparr>) files" for files
    by (simp_all add: locals_of_def f)
  have "flag_of bad = False"
    using f by (simp add: flag_of_def ParseBool_def)
  then show ?thesis
    unfolding main_def l by (simp cong: option.case_cong if_cong)
qed

text \<open>With \<^verbatim>\<open>overwrite\<close> set to \<^verbatim>\<open>yes\<close> and an object of the target name in the
  target folder, the run creates a second object instead of updating the first.\<close>

theorem invalid_boolean_is_false_witness:
  "snd (ParseBool ''yes'') \<and> flag_of ''yes'' = False \<and>
   trace (main plain_host (plain_inputs\<lparr>overwriteInput := ''yes''\<rparr>) in_folder) =
     [Call (CreateReq \<lparr>Id = [], Name = ''x.txt'', MimeType = [], Parents = [''R'']\<rparr> (Some ''data''))]"
proof -
  have bad: "snd (ParseBool ''yes'')"
    by (simp add: ParseBool_def)
  have run: "trace (main plain_host (plain_inputs\<lparr>overwriteInput := ''false''\<rparr>) in_folder) =
     [Call (CreateReq \<lparr>Id = [], Name = ''x.txt'', MimeType = [], Parents = [''R'']\<rparr> (Some ''data''))]"
    by (simp add: main_def plain_host_def plain_inputs_def in_folder_def locals_of_def
        flag_of_def ParseBool_def TrimSuffix_def file_step_def mirrored_def targetName_of_def
        prefixed_def uploadFile_def uploadToDrive_def Files_Create_def sent_def trace_def Let_def
        Base_def PathSeparator_def)
  from invalid_boolean_is_false [OF bad, of plain_host plain_inputs in_folder] bad run
  show ?thesis by simp
qed

end
